theory Spec2Isabelle
  imports Main
begin

section \<open>The PDF question-answering notebook: class \<open>PDFQASystem\<close>\<close>

text \<open>
  The notebook defines one class, \<open>PDFQASystem\<close>, that sequences four third-party
  libraries: PyPDF2 (text extraction), langchain's \<open>RecursiveCharacterTextSplitter\<close>,
  FAISS over HuggingFace embeddings, and a \<open>RetrievalQA\<close> chain over \<open>ChatGroq\<close>.
  The class is embedded method by method. What the libraries do is not part of the
  notebook: every library call is answered by a field of the record \<open>env\<close>, and
  the objects the libraries hand back are represented by the arguments the notebook
  constructs them from.

  Python values are modelled as follows: \<open>None\<close>-or-string is \<open>string option\<close>;
  a raised exception is \<open>Inl\<close> of a sum, a returned value is \<open>Inr\<close>; a method is
  a function from the object to an \<open>outcome\<close>: what it returned or raised, the object
  afterwards, and the library calls and \<open>print\<close>s it made, in order.

  The cell of the class has \<open>try\<close> without its colon at the head of the block that
  builds the Groq model; the block is embedded as the \<open>try:\<close> ... \<open>except Exception\<close>
  it is laid out as. The exceptions of the model are the instances of \<open>Exception\<close>,
  which is what the handlers of the class catch.
\<close>

subsection \<open>Exceptions, library objects, events\<close>

datatype exn = PyException (exn_class: string) (exn_msg: string)

definition ValueError :: "string \<Rightarrow> exn" where
  "ValueError m = PyException ''ValueError'' m"

record hf_embeddings =
  model_name :: string

record splitter =
  sp_chunk_size :: int
  sp_chunk_overlap :: int

record faiss =
  fs_texts :: "string list"
  fs_embeddings :: hf_embeddings

record chat_groq =
  cg_model :: string
  cg_temperature :: int
  cg_max_tokens :: "int option"
  cg_api_key :: string

record retriever =
  rt_store :: faiss
  rt_k :: int

record retrieval_qa =
  qa_llm :: chat_groq
  qa_chain_type :: string
  qa_retriever :: retriever

datatype event =
    Print string
  | OpenPdf string
  | SplitText string
  | FaissFromTexts "string list"
  | EnvironGet string
  | ChatGroq chat_groq
  | FromChainType retrieval_qa
  | ChainRun string

text \<open>
  The world outside the class. \<open>read_pdf\<close> answers \<open>open(path, 'rb')\<close> and
  \<open>PyPDF2.PdfReader(file)\<close>: it raises, or gives the pages, each of which raises or
  gives its text when \<open>extract_text()\<close> is called on it. The constructors and
  \<open>FAISS.from_texts\<close> either raise (\<open>Some e\<close>) or succeed (\<open>None\<close>).
\<close>

record env =
  read_pdf :: "string \<Rightarrow> exn + (exn + string) list"
  hf_embeddings_init :: "hf_embeddings \<Rightarrow> exn option"
  splitter_init :: "splitter \<Rightarrow> exn option"
  split_text :: "splitter \<Rightarrow> string \<Rightarrow> exn + string list"
  faiss_from_texts :: "string list \<Rightarrow> hf_embeddings \<Rightarrow> exn option"
  environ_get :: "string \<Rightarrow> string option"
  chat_groq_init :: "chat_groq \<Rightarrow> exn option"
  from_chain_type :: "retrieval_qa \<Rightarrow> exn option"
  chain_run :: "retrieval_qa \<Rightarrow> string \<Rightarrow> exn + string"

subsection \<open>The object and the outcome of a method\<close>

record pdfqa_system =
  pdf_path :: string
  chunk_size :: int
  chunk_overlap :: int
  groq_api_key :: "string option"
  vector_store :: "faiss option"
  qa_chain :: "retrieval_qa option"
  embeddings :: hf_embeddings
  text_splitter :: splitter

record 'a outcome =
  ret :: "exn + 'a"
  st :: pdfqa_system
  out :: "event list"

subsection \<open>\<open>__init__\<close>\<close>

text \<open>
  \<open>def __init__(self, pdf_path, chunk_size=1000, chunk_overlap=200, groq_api_key=None)\<close>.
  An omitted keyword argument is \<open>None\<close> here and takes the default of the signature.
\<close>

definition init ::
  "env \<Rightarrow> string \<Rightarrow> int option \<Rightarrow> int option \<Rightarrow> string option \<Rightarrow> exn + pdfqa_system" where
  "init env path cs co key =
     (let size = (case cs of None \<Rightarrow> 1000 | Some n \<Rightarrow> n);
          overlap = (case co of None \<Rightarrow> 200 | Some n \<Rightarrow> n);
          emb = \<lparr>model_name = ''sentence-transformers/all-MiniLM-L6-v2''\<rparr>;
          spl = \<lparr>sp_chunk_size = size, sp_chunk_overlap = overlap\<rparr>
      in case hf_embeddings_init env emb of
           Some e \<Rightarrow> Inl e
         | None \<Rightarrow>
             (case splitter_init env spl of
                Some e \<Rightarrow> Inl e
              | None \<Rightarrow>
                  Inr \<lparr>pdf_path = path, chunk_size = size, chunk_overlap = overlap,
                       groq_api_key = key, vector_store = None, qa_chain = None,
                       embeddings = emb, text_splitter = spl\<rparr>))"

subsection \<open>\<open>extract_text_from_pdf\<close>\<close>

text \<open>The loop \<open>for page in pdf_reader.pages: text += page.extract_text()\<close>.\<close>

fun extract_pages :: "string \<Rightarrow> (exn + string) list \<Rightarrow> exn + string" where
  "extract_pages text [] = Inr text"
| "extract_pages text (Inl e # pages) = Inl e"
| "extract_pages text (Inr t # pages) = extract_pages (text @ t) pages"

text \<open>The body of the \<open>try\<close> block: \<open>open\<close>, \<open>PdfReader\<close>, then the loop.\<close>

definition read_all_pages :: "env \<Rightarrow> pdfqa_system \<Rightarrow> exn + string" where
  "read_all_pages env self =
     (case read_pdf env (pdf_path self) of
        Inl e \<Rightarrow> Inl e
      | Inr pages \<Rightarrow> extract_pages [] pages)"

definition extract_text_from_pdf :: "env \<Rightarrow> pdfqa_system \<Rightarrow> (string option) outcome" where
  "extract_text_from_pdf env self =
     (case read_all_pages env self of
        Inr text \<Rightarrow>
          \<lparr>ret = Inr (Some text), st = self, out = [OpenPdf (pdf_path self)]\<rparr>
      | Inl e \<Rightarrow>
          \<lparr>ret = Inr None, st = self,
           out = [OpenPdf (pdf_path self), Print (''Error reading PDF: '' @ exn_msg e)]\<rparr>)"

subsection \<open>\<open>create_vector_store\<close>\<close>

definition create_vector_store :: "env \<Rightarrow> pdfqa_system \<Rightarrow> bool outcome" where
  "create_vector_store env self =
     (let r = extract_text_from_pdf env self in
      case ret r of
        Inl e \<Rightarrow> \<lparr>ret = Inl e, st = st r, out = out r\<rparr>
      | Inr None \<Rightarrow> \<lparr>ret = Inr False, st = st r, out = out r\<rparr>
      | Inr (Some text) \<Rightarrow>
          if text = [] then \<lparr>ret = Inr False, st = st r, out = out r\<rparr>
          else
            (case split_text env (text_splitter (st r)) text of
               Inl e \<Rightarrow> \<lparr>ret = Inl e, st = st r, out = out r @ [SplitText text]\<rparr>
             | Inr texts \<Rightarrow>
                 (case faiss_from_texts env texts (embeddings (st r)) of
                    Some e \<Rightarrow>
                      \<lparr>ret = Inl e, st = st r,
                       out = out r @ [SplitText text, FaissFromTexts texts]\<rparr>
                  | None \<Rightarrow>
                      \<lparr>ret = Inr True,
                       st = (st r)\<lparr>vector_store :=
                              Some \<lparr>fs_texts = texts, fs_embeddings = embeddings (st r)\<rparr>\<rparr>,
                       out = out r @ [SplitText text, FaissFromTexts texts]\<rparr>)))"

subsection \<open>\<open>initialize_qa_chain\<close>\<close>

definition missing_key_msg :: string where
  "missing_key_msg =
     ''GROQ_API_KEY not found. Set the environment variable or pass groq_api_key to PDFQASystem.''"

text \<open>
  \<open>api_key = self.groq_api_key or os.environ.get("GROQ_API_KEY")\<close>: the left operand
  when it is truthy (a non-empty string), else the right one, which is only then
  evaluated.
\<close>

definition api_key_expr :: "env \<Rightarrow> pdfqa_system \<Rightarrow> string option \<times> event list" where
  "api_key_expr env self =
     (case groq_api_key self of
        None \<Rightarrow> (environ_get env ''GROQ_API_KEY'', [EnvironGet ''GROQ_API_KEY''])
      | Some k \<Rightarrow>
          if k = [] then (environ_get env ''GROQ_API_KEY'', [EnvironGet ''GROQ_API_KEY''])
          else (Some k, []))"

text \<open>\<open>if not api_key: raise ValueError(...)\<close>.\<close>

definition check_api_key :: "string option \<Rightarrow> exn + string" where
  "check_api_key api_key =
     (case api_key of
        None \<Rightarrow> Inl (ValueError missing_key_msg)
      | Some k \<Rightarrow> if k = [] then Inl (ValueError missing_key_msg) else Inr k)"

text \<open>The body of the \<open>try\<close> block: the key, then \<open>ChatGroq(...)\<close>.\<close>

definition groq_llm :: "env \<Rightarrow> pdfqa_system \<Rightarrow> (exn + chat_groq) \<times> event list" where
  "groq_llm env self =
     (let (api_key, evs) = api_key_expr env self in
      case check_api_key api_key of
        Inl e \<Rightarrow> (Inl e, evs)
      | Inr k \<Rightarrow>
          (let llm = \<lparr>cg_model = ''llama-3.3-70b-versatile'', cg_temperature = 0,
                      cg_max_tokens = None, cg_api_key = k\<rparr>
           in case chat_groq_init env llm of
                Some e \<Rightarrow> (Inl e, evs @ [ChatGroq llm])
              | None \<Rightarrow> (Inr llm, evs @ [ChatGroq llm])))"

definition initialize_qa_chain :: "env \<Rightarrow> pdfqa_system \<Rightarrow> bool outcome" where
  "initialize_qa_chain env self =
     (case vector_store self of
        None \<Rightarrow>
          \<lparr>ret = Inr False, st = self,
           out = [Print ''Vector store not initialized. Run create_vector_store first.'']\<rparr>
      | Some vs \<Rightarrow>
          (case groq_llm env self of
             (Inl e, evs) \<Rightarrow>
               \<lparr>ret = Inr False, st = self,
                out = evs @ [Print (''Error initializing Groq LLM: '' @ exn_msg e)]\<rparr>
           | (Inr llm, evs) \<Rightarrow>
               (let chain = \<lparr>qa_llm = llm, qa_chain_type = ''stuff'',
                             qa_retriever = \<lparr>rt_store = vs, rt_k = 3\<rparr>\<rparr>
                in case from_chain_type env chain of
                     Some e \<Rightarrow> \<lparr>ret = Inl e, st = self, out = evs @ [FromChainType chain]\<rparr>
                   | None \<Rightarrow>
                       \<lparr>ret = Inr True, st = self\<lparr>qa_chain := Some chain\<rparr>,
                        out = evs @ [FromChainType chain]\<rparr>)))"

text \<open>
  Shorthand for the two objects the method constructs from a key \<open>k\<close> and an index
  \<open>vs\<close>: the model \<open>ChatGroq(model="llama-3.3-70b-versatile", temperature=0,
  max_tokens=None, groq_api_key=k)\<close> and the chain of type "stuff" over it whose
  retriever returns the top 3 chunks of \<open>vs\<close>.
\<close>

abbreviation groq_model :: "string \<Rightarrow> chat_groq" where
  "groq_model k \<equiv>
     \<lparr>cg_model = ''llama-3.3-70b-versatile'', cg_temperature = 0,
      cg_max_tokens = None, cg_api_key = k\<rparr>"

abbreviation stuff_chain :: "string \<Rightarrow> faiss \<Rightarrow> retrieval_qa" where
  "stuff_chain k vs \<equiv>
     \<lparr>qa_llm = groq_model k, qa_chain_type = ''stuff'',
      qa_retriever = \<lparr>rt_store = vs, rt_k = 3\<rparr>\<rparr>"

subsection \<open>\<open>query\<close>\<close>

definition query :: "env \<Rightarrow> pdfqa_system \<Rightarrow> string \<Rightarrow> (string option) outcome" where
  "query env self question =
     (case qa_chain self of
        None \<Rightarrow>
          \<lparr>ret = Inr None, st = self,
           out = [Print ''QA chain not initialized. Run initialize_qa_chain first.'']\<rparr>
      | Some chain \<Rightarrow>
          (case chain_run env chain question of
             Inr response \<Rightarrow>
               \<lparr>ret = Inr (Some response), st = self, out = [ChainRun question]\<rparr>
           | Inl e \<Rightarrow>
               \<lparr>ret = Inr None, st = self,
                out = [ChainRun question, Print (''Error processing query: '' @ exn_msg e)]\<rparr>))"

text \<open>
  The caller's loop, as in \<open>main\<close>: \<open>for question in questions: qa_system.query(question)\<close>.
  Each call meets the world as it is then, so every question comes with its own \<open>env\<close>.
\<close>

fun ask_all :: "pdfqa_system \<Rightarrow> (env \<times> string) list \<Rightarrow> pdfqa_system" where
  "ask_all self [] = self"
| "ask_all self ((env, question) # rest) = ask_all (st (query env self question)) rest"

text \<open>
  The class is driven by its caller, one method call after another, in any order. A
  \<open>call\<close> names the method, \<open>perform\<close> gives the object after it, and \<open>run\<close> performs a
  list of calls, each in the world it meets.
\<close>

datatype call = CreateVectorStore | InitializeQaChain | Query string

fun perform :: "env \<Rightarrow> pdfqa_system \<Rightarrow> call \<Rightarrow> pdfqa_system" where
  "perform env self CreateVectorStore = st (create_vector_store env self)"
| "perform env self InitializeQaChain = st (initialize_qa_chain env self)"
| "perform env self (Query question) = st (query env self question)"

fun run :: "pdfqa_system \<Rightarrow> (env \<times> call) list \<Rightarrow> pdfqa_system" where
  "run self [] = self"
| "run self ((env, c) # rest) = run (perform env self c) rest"

subsection \<open>The chunker of the design\<close>

text \<open>
  Modelled from the spec: the notebook hands chunking to langchain's
  \<open>RecursiveCharacterTextSplitter.split_text\<close>, whose code is not part of the
  notebook; in the embedding of \<open>create_vector_store\<close> it is the field
  \<open>split_text\<close> of the world. \<open>chunker\<close> is the Chunker as the design describes it:
  for a target length \<open>L\<close> and an overlap \<open>ov\<close> with \<open>0 \<le> ov < L\<close>, a finite sequence
  of chunks in which each chunk after the first starts \<open>ov\<close> characters before the end
  of the one before it, the final chunk may be shorter than \<open>L\<close>, and the empty text has
  no chunks. Outside \<open>ov < L\<close> the design defines nothing, and \<open>chunker\<close> is \<open>None\<close>.
\<close>

function chunks_from :: "nat \<Rightarrow> nat \<Rightarrow> string \<Rightarrow> string list" where
  "chunks_from L ov text =
     (if text = [] then []
      else if length text \<le> L \<or> L \<le> ov then [text]
      else take L text # chunks_from L ov (drop (L - ov) text))"
  by pat_completeness auto
termination
  by (relation "measure (\<lambda>(L, ov, t). length t)") auto

declare chunks_from.simps [simp del]

definition chunker :: "nat \<Rightarrow> nat \<Rightarrow> string \<Rightarrow> string list option" where
  "chunker L ov text = (if ov < L then Some (chunks_from L ov text) else None)"

text \<open>
  Modelled from the spec: reassembling by removing the overlaps keeps the first chunk
  whole and drops the first \<open>ov\<close> characters of every later chunk.
\<close>

fun reassemble :: "nat \<Rightarrow> string list \<Rightarrow> string" where
  "reassemble ov [] = []"
| "reassemble ov (c # cs) = c @ concat (map (drop ov) cs)"

subsection \<open>A concrete world and concrete objects\<close>

text \<open>
  The document of the notebook's \<open>main\<close>, with a two-sentence text on two pages; a
  world in which every library call succeeds, and variants of it in which the document
  cannot be parsed, has no text, the index cannot be built, the environment has no
  key, the model or the chain cannot be constructed, or the hosted model refuses; the object after \<open>__init__\<close> with the defaults, after a successful build,
  and after a successful initialization.
\<close>

definition mt_pdf :: string where
  "mt_pdf = ''/content/Machine Translation (1).pdf''"

definition mt_text :: string where
  "mt_text =
     ''Machine translation converts text between languages. It can be rule-based, statistical, or neural.''"

definition colab :: env where
  "colab =
     \<lparr>read_pdf = (\<lambda>p. if p = mt_pdf
                        then Inr [Inr ''Machine translation converts text between languages. '',
                                  Inr ''It can be rule-based, statistical, or neural.'']
                        else Inl (PyException ''FileNotFoundError'' ''No such file or directory'')),
      hf_embeddings_init = (\<lambda>_. None),
      splitter_init = (\<lambda>_. None),
      split_text = (\<lambda>spl t. case chunker (nat (sp_chunk_size spl)) (nat (sp_chunk_overlap spl)) t of
                                None \<Rightarrow> Inl (ValueError ''chunk overlap is not below chunk size'')
                              | Some cs \<Rightarrow> Inr cs),
      faiss_from_texts = (\<lambda>ts _. if ts = [] then Some (PyException ''IndexError'' ''list index out of range'')
                                  else None),
      environ_get = (\<lambda>k. if k = ''GROQ_API_KEY'' then Some ''gsk_demo'' else None),
      chat_groq_init = (\<lambda>_. None),
      from_chain_type = (\<lambda>_. None),
      chain_run = (\<lambda>_ _. Inr ''The main topic of the document is Machine Translation (MT).'')\<rparr>"

definition corrupt_pdf :: env where
  "corrupt_pdf = colab\<lparr>read_pdf := (\<lambda>_. Inl (PyException ''PdfReadError'' ''EOF marker not found''))\<rparr>"

definition blank_pdf :: env where
  "blank_pdf = colab\<lparr>read_pdf := (\<lambda>_. Inr [Inr [], Inr []])\<rparr>"

definition no_key :: env where
  "no_key = colab\<lparr>environ_get := (\<lambda>_. None)\<rparr>"

definition rate_limited :: env where
  "rate_limited = colab\<lparr>chain_run := (\<lambda>_ _. Inl (PyException ''RateLimitError'' ''rate limit reached''))\<rparr>"


definition groq_down :: env where
  "groq_down = colab\<lparr>chat_groq_init := (\<lambda>_. Some (PyException ''AuthenticationError'' ''invalid api key''))\<rparr>"

definition chain_down :: env where
  "chain_down = colab\<lparr>from_chain_type := (\<lambda>_. Some (PyException ''ValidationError'' ''bad retriever''))\<rparr>"

definition new_system :: pdfqa_system where
  "new_system =
     \<lparr>pdf_path = mt_pdf, chunk_size = 1000, chunk_overlap = 200, groq_api_key = None,
      vector_store = None, qa_chain = None,
      embeddings = \<lparr>model_name = ''sentence-transformers/all-MiniLM-L6-v2''\<rparr>,
      text_splitter = \<lparr>sp_chunk_size = 1000, sp_chunk_overlap = 200\<rparr>\<rparr>"

definition mt_store :: faiss where
  "mt_store =
     \<lparr>fs_texts = [mt_text],
      fs_embeddings = \<lparr>model_name = ''sentence-transformers/all-MiniLM-L6-v2''\<rparr>\<rparr>"

definition mt_chain :: retrieval_qa where
  "mt_chain =
     \<lparr>qa_llm = \<lparr>cg_model = ''llama-3.3-70b-versatile'', cg_temperature = 0,
                cg_max_tokens = None, cg_api_key = ''gsk_demo''\<rparr>,
      qa_chain_type = ''stuff'',
      qa_retriever = \<lparr>rt_store = mt_store, rt_k = 3\<rparr>\<rparr>"

definition built_system :: pdfqa_system where
  "built_system = new_system\<lparr>vector_store := Some mt_store\<rparr>"

definition ready_system :: pdfqa_system where
  "ready_system = built_system\<lparr>qa_chain := Some mt_chain\<rparr>"

text \<open>The built object of a caller who passed \<open>groq_api_key=""\<close>.\<close>

definition empty_key_system :: pdfqa_system where
  "empty_key_system = built_system\<lparr>groq_api_key := Some []\<rparr>"

section \<open>What a method leaves of the object\<close>

lemma query_keeps_object: "st (query env self question) = self"
  by (simp add: query_def split: option.splits sum.splits)

lemma extract_keeps_object: "st (extract_text_from_pdf env self) = self"
  by (simp add: extract_text_from_pdf_def split: sum.splits)

lemma extract_never_raises: "\<exists>v. ret (extract_text_from_pdf env self) = Inr v"
  by (simp add: extract_text_from_pdf_def split: sum.splits)

lemma create_vector_store_cases:
  "st (create_vector_store env self) = self \<or>
   (\<exists>texts. ret (create_vector_store env self) = Inr True \<and>
      st (create_vector_store env self) =
        self\<lparr>vector_store := Some \<lparr>fs_texts = texts, fs_embeddings = embeddings self\<rparr>\<rparr>)"
  by (auto simp: create_vector_store_def Let_def extract_text_from_pdf_def
           split: sum.splits option.splits)

lemma initialize_qa_chain_cases:
  "st (initialize_qa_chain env self) = self \<or>
   (\<exists>chain. ret (initialize_qa_chain env self) = Inr True \<and> vector_store self \<noteq> None \<and>
      st (initialize_qa_chain env self) = self\<lparr>qa_chain := Some chain\<rparr>)"
  by (auto simp: initialize_qa_chain_def Let_def split: sum.splits option.splits prod.splits)

section \<open>Failures\<close>

text \<open>
  The class has no exception types of its own and none of its methods lets a failure it
  detects leave as an exception: \<open>extract_text_from_pdf\<close> and \<open>query\<close> print a line and
  return \<open>None\<close>, \<open>create_vector_store\<close> and \<open>initialize_qa_chain\<close> return \<open>False\<close>. The
  theorems of this section state each failure the way the class reports it.
\<close>

subsection \<open>C1: \<open>query\<close> before the chain is initialized\<close>

text \<open>
  C1, as stated, asks that \<open>query\<close> on an object whose chain is not initialized fail
  with a PreconditionError. On the new object the call returns normally, and its value is
  \<open>None\<close>.
\<close>

theorem query_before_ready_counterexample:
  "ret (query colab new_system ''What is the main topic of the document?'') = Inr None"
  by (simp add: query_def new_system_def)

text \<open>
  C1, amended: for every question, \<open>query\<close> on an object whose \<open>qa_chain\<close> is \<open>None\<close>
  prints "QA chain not initialized. Run initialize_qa_chain first.", returns \<open>None\<close>,
  leaves the object as it was and does nothing else: the chain is not run, so neither
  retrieval nor generation is attempted.
\<close>

theorem query_before_ready:
  assumes "qa_chain self = None"
  shows "query env self question =
           \<lparr>ret = Inr None, st = self,
            out = [Print ''QA chain not initialized. Run initialize_qa_chain first.'']\<rparr>"
  using assms by (simp add: query_def)

theorem query_before_ready_witness:
  "qa_chain built_system = None \<and>
   query colab built_system ''Summarize the key points.'' =
     \<lparr>ret = Inr None, st = built_system,
      out = [Print ''QA chain not initialized. Run initialize_qa_chain first.'']\<rparr>"
  using query_before_ready [of built_system colab "''Summarize the key points.''"]
  by (simp add: built_system_def new_system_def)

subsection \<open>C2: a document without text\<close>

text \<open>
  C2, as stated, asks that \<open>create_vector_store\<close> fail with an EmptyContentError when the
  extracted text is empty. On a document whose two pages have no text the call returns
  normally, and its value is \<open>False\<close>.
\<close>

theorem empty_text_counterexample:
  "ret (create_vector_store blank_pdf new_system) = Inr False"
  by (simp add: create_vector_store_def extract_text_from_pdf_def read_all_pages_def
        blank_pdf_def colab_def new_system_def)

text \<open>
  C2, amended: when the extracted text is the empty string, \<open>create_vector_store\<close>
  returns \<open>False\<close> after opening the document and nothing more: it prints nothing, never
  calls the splitter or FAISS, and leaves the object as it was, so a \<open>vector_store\<close> that
  was \<open>None\<close> is still \<open>None\<close>.
\<close>

theorem empty_text_build:
  assumes "ret (extract_text_from_pdf env self) = Inr (Some [])"
      and "vector_store self = None"
  shows "create_vector_store env self =
           \<lparr>ret = Inr False, st = self, out = [OpenPdf (pdf_path self)]\<rparr> \<and>
         vector_store (st (create_vector_store env self)) = None"
  using assms
  by (auto simp: create_vector_store_def extract_text_from_pdf_def split: sum.splits)

theorem empty_text_build_witness:
  "ret (extract_text_from_pdf blank_pdf new_system) = Inr (Some []) \<and>
   vector_store new_system = None \<and>
   create_vector_store blank_pdf new_system =
     \<lparr>ret = Inr False, st = new_system, out = [OpenPdf mt_pdf]\<rparr> \<and>
   vector_store (st (create_vector_store blank_pdf new_system)) = None"
proof -
  have a: "ret (extract_text_from_pdf blank_pdf new_system) = Inr (Some [])"
    by (simp add: extract_text_from_pdf_def read_all_pages_def blank_pdf_def colab_def)
  have b: "vector_store new_system = None"
    by (simp add: new_system_def)
  have c: "pdf_path new_system = mt_pdf"
    by (simp add: new_system_def)
  show ?thesis using empty_text_build [OF a b] a b c by simp
qed

subsection \<open>C3: no credential\<close>

text \<open>
  C3, as stated, asks that \<open>initialize_qa_chain\<close> fail with a CredentialError when no
  credential is available. On the built object, without a key in the environment, the
  call returns normally, and its value is \<open>False\<close>: the \<open>ValueError\<close> that the method
  raises for the missing key is caught by its own handler.
\<close>

theorem missing_credential_counterexample:
  "ret (initialize_qa_chain no_key built_system) = Inr False"
  by (simp add: initialize_qa_chain_def groq_llm_def api_key_expr_def check_api_key_def
        no_key_def colab_def built_system_def new_system_def)

text \<open>
  C3, amended: on an object with a built index and no chain, when no key was passed (or
  the empty string was) and the environment variable is unset (or empty),
  \<open>initialize_qa_chain\<close> looks the variable up, prints "Error initializing Groq LLM: "
  followed by the missing-key message, and returns \<open>False\<close>; no model and no chain are
  constructed, the index is unchanged and the chain is still absent.
\<close>

theorem missing_credential:
  assumes "vector_store self = Some vs"
      and "qa_chain self = None"
      and "groq_api_key self = None \<or> groq_api_key self = Some []"
      and "environ_get env ''GROQ_API_KEY'' = None \<or> environ_get env ''GROQ_API_KEY'' = Some []"
  shows "initialize_qa_chain env self =
           \<lparr>ret = Inr False, st = self,
            out = [EnvironGet ''GROQ_API_KEY'',
                   Print (''Error initializing Groq LLM: '' @ missing_key_msg)]\<rparr> \<and>
         vector_store (st (initialize_qa_chain env self)) = Some vs \<and>
         qa_chain (st (initialize_qa_chain env self)) = None"
proof -
  from assms(3) have key: "api_key_expr env self =
      (environ_get env ''GROQ_API_KEY'', [EnvironGet ''GROQ_API_KEY''])"
    by (auto simp: api_key_expr_def)
  from assms(4) have "check_api_key (environ_get env ''GROQ_API_KEY'') =
      Inl (ValueError missing_key_msg)"
    by (auto simp: check_api_key_def)
  with key have "groq_llm env self =
      (Inl (ValueError missing_key_msg), [EnvironGet ''GROQ_API_KEY''])"
    by (simp add: groq_llm_def)
  with assms(1,2) show ?thesis
    by (simp add: initialize_qa_chain_def ValueError_def)
qed

theorem missing_credential_witness:
  "vector_store built_system = Some mt_store \<and> qa_chain built_system = None \<and>
   groq_api_key built_system = None \<and> environ_get no_key ''GROQ_API_KEY'' = None \<and>
   initialize_qa_chain no_key built_system =
     \<lparr>ret = Inr False, st = built_system,
      out = [EnvironGet ''GROQ_API_KEY'',
             Print (''Error initializing Groq LLM: '' @ missing_key_msg)]\<rparr> \<and>
   vector_store (st (initialize_qa_chain no_key built_system)) = Some mt_store \<and>
   qa_chain (st (initialize_qa_chain no_key built_system)) = None"
proof -
  have a: "vector_store built_system = Some mt_store"
    by (simp add: built_system_def)
  have b: "qa_chain built_system = None"
    by (simp add: built_system_def new_system_def)
  have c: "groq_api_key built_system = None"
    by (simp add: built_system_def new_system_def)
  have d: "environ_get no_key ''GROQ_API_KEY'' = None"
    by (simp add: no_key_def)
  from c have c': "groq_api_key built_system = None \<or> groq_api_key built_system = Some []" ..
  from d have d': "environ_get no_key ''GROQ_API_KEY'' = None \<or>
      environ_get no_key ''GROQ_API_KEY'' = Some []" ..
  show ?thesis using missing_credential [OF a b c' d'] a b c d by simp
qed

subsection \<open>C4: a document that cannot be read\<close>




section \<open>Configuration\<close>

subsection \<open>C5: the defaults\<close>

text \<open>
  C5: an object constructed without \<open>chunk_size\<close> and \<open>chunk_overlap\<close> has chunk size
  1000 and overlap 200, in its fields and in its text splitter; every chain that
  \<open>initialize_qa_chain\<close> installs retrieves the top 3 chunks; and when no key was passed
  to the constructor the key is the value of the environment variable \<open>GROQ_API_KEY\<close>,
  which is the key the installed model holds.
\<close>

theorem defaults:
  "(init env path None None key = Inr self \<longrightarrow>
      chunk_size self = 1000 \<and> chunk_overlap self = 200 \<and>
      text_splitter self = \<lparr>sp_chunk_size = 1000, sp_chunk_overlap = 200\<rparr> \<and>
      groq_api_key self = key) \<and>
   (ret (initialize_qa_chain env' self') = Inr True \<longrightarrow>
      (\<exists>chain. qa_chain (st (initialize_qa_chain env' self')) = Some chain \<and>
         rt_k (qa_retriever chain) = 3 \<and>
         (groq_api_key self' = None \<longrightarrow>
            environ_get env' ''GROQ_API_KEY'' = Some (cg_api_key (qa_llm chain))))) \<and>
   (groq_api_key self' = None \<longrightarrow>
      api_key_expr env' self' = (environ_get env' ''GROQ_API_KEY'', [EnvironGet ''GROQ_API_KEY'']))"
proof (intro conjI impI)
  assume "init env path None None key = Inr self"
  then have "self = \<lparr>pdf_path = path, chunk_size = 1000, chunk_overlap = 200,
      groq_api_key = key, vector_store = None, qa_chain = None,
      embeddings = \<lparr>model_name = ''sentence-transformers/all-MiniLM-L6-v2''\<rparr>,
      text_splitter = \<lparr>sp_chunk_size = 1000, sp_chunk_overlap = 200\<rparr>\<rparr>"
    by (auto simp: init_def Let_def split: option.splits)
  then show "chunk_size self = 1000" "chunk_overlap self = 200"
    "text_splitter self = \<lparr>sp_chunk_size = 1000, sp_chunk_overlap = 200\<rparr>"
    "groq_api_key self = key"
    by simp_all
next
  assume ok: "ret (initialize_qa_chain env' self') = Inr True"
  then show "\<exists>chain. qa_chain (st (initialize_qa_chain env' self')) = Some chain \<and>
         rt_k (qa_retriever chain) = 3 \<and>
         (groq_api_key self' = None \<longrightarrow>
            environ_get env' ''GROQ_API_KEY'' = Some (cg_api_key (qa_llm chain)))"
    by (auto simp: initialize_qa_chain_def groq_llm_def api_key_expr_def check_api_key_def Let_def
             split: option.splits sum.splits prod.splits if_splits)
next
  assume "groq_api_key self' = None"
  then show "api_key_expr env' self' =
      (environ_get env' ''GROQ_API_KEY'', [EnvironGet ''GROQ_API_KEY''])"
    by (simp add: api_key_expr_def)
qed

theorem defaults_witness:
  "init colab mt_pdf None None None = Inr new_system \<and>
   chunk_size new_system = 1000 \<and> chunk_overlap new_system = 200 \<and>
   text_splitter new_system = \<lparr>sp_chunk_size = 1000, sp_chunk_overlap = 200\<rparr> \<and>
   ret (initialize_qa_chain colab built_system) = Inr True \<and>
   groq_api_key built_system = None \<and>
   (\<exists>chain. qa_chain (st (initialize_qa_chain colab built_system)) = Some chain \<and>
      rt_k (qa_retriever chain) = 3 \<and>
      environ_get colab ''GROQ_API_KEY'' = Some (cg_api_key (qa_llm chain))) \<and>
   api_key_expr colab built_system = (Some ''gsk_demo'', [EnvironGet ''GROQ_API_KEY''])"
proof -
  have a: "init colab mt_pdf None None None = Inr new_system"
    by (simp add: init_def Let_def colab_def new_system_def)
  have b: "ret (initialize_qa_chain colab built_system) = Inr True"
    by (simp add: initialize_qa_chain_def groq_llm_def api_key_expr_def check_api_key_def
          Let_def colab_def built_system_def new_system_def)
  have c: "groq_api_key built_system = None"
    by (simp add: built_system_def new_system_def)
  have d: "environ_get colab ''GROQ_API_KEY'' = Some ''gsk_demo''"
    by (simp add: colab_def)
  show ?thesis
    using defaults [of colab mt_pdf None new_system colab built_system] a b c d by simp
qed

section \<open>Chunking\<close>

lemma chunks_from_bounded:
  "ov < L \<Longrightarrow> c \<in> set (chunks_from L ov t) \<Longrightarrow> c \<noteq> [] \<and> length c \<le> L"
proof (induction L ov t rule: chunks_from.induct)
  case (1 L ov t)
  show ?case
  proof (cases "t = [] \<or> length t \<le> L")
    case True
    with "1.prems" show ?thesis
      by (auto simp: chunks_from.simps [of L ov t] split: if_splits)
  next
    case False
    with "1.prems" have "c = take L t \<or> c \<in> set (chunks_from L ov (drop (L - ov) t))"
      by (simp add: chunks_from.simps [of L ov t])
    then show ?thesis
    proof
      assume "c = take L t"
      with False "1.prems" show ?thesis by auto
    next
      assume "c \<in> set (chunks_from L ov (drop (L - ov) t))"
      with False "1.prems" "1.IH" show ?thesis by simp
    qed
  qed
qed

lemma chunks_from_tails:
  "ov < L \<Longrightarrow> concat (map (drop ov) (chunks_from L ov t)) = drop ov t"
proof (induction L ov t rule: chunks_from.induct)
  case (1 L ov t)
  show ?case
  proof (cases "t = [] \<or> length t \<le> L")
    case True
    then show ?thesis by (auto simp: chunks_from.simps [of L ov t])
  next
    case False
    with "1.prems" have step:
      "chunks_from L ov t = take L t # chunks_from L ov (drop (L - ov) t)"
      by (simp add: chunks_from.simps [of L ov t])
    from False "1.prems" have ih:
      "concat (map (drop ov) (chunks_from L ov (drop (L - ov) t))) = drop ov (drop (L - ov) t)"
      using "1.IH" by simp
    have "drop ov t = drop ov (take L t @ drop L t)" by simp
    also have "\<dots> = drop ov (take L t) @ drop (ov - length (take L t)) (drop L t)"
      by (rule drop_append)
    also have "\<dots> = drop ov (take L t) @ drop L t"
      using "1.prems" False by simp
    finally have "drop ov t = drop ov (take L t) @ drop L t" .
    with step ih "1.prems" show ?thesis by simp
  qed
qed

lemma mt_chunks:
  "chunker 50 10 mt_text =
     Some [''Machine translation converts text between language'',
           ''n languages. It can be rule-based, statistical, or'',
           ''stical, or neural.'']"
  by (simp add: chunker_def mt_text_def chunks_from.simps)

subsection \<open>C6: chunking and reassembling\<close>

text \<open>
  C6: for every chunk length \<open>L\<close> and overlap \<open>ov\<close> with \<open>0 \<le> ov < L\<close> and every text, the
  chunker of the design yields chunks, and reassembling them by removing the overlaps
  gives the text back exactly.
\<close>

theorem chunk_reassemble:
  assumes "ov < L"
  shows "\<exists>chunks. chunker L ov text = Some chunks \<and> reassemble ov chunks = text"
proof -
  have "reassemble ov (chunks_from L ov text) = text"
  proof (cases "text = [] \<or> length text \<le> L")
    case True
    then show ?thesis by (auto simp: chunks_from.simps [of L ov "text"])
  next
    case False
    with assms have "chunks_from L ov text = take L text # chunks_from L ov (drop (L - ov) text)"
      by (simp add: chunks_from.simps [of L ov "text"])
    with assms show ?thesis by (simp add: chunks_from_tails)
  qed
  with assms show ?thesis by (simp add: chunker_def)
qed

theorem chunk_reassemble_witness:
  "(10::nat) < 50 \<and>
   chunker 50 10 mt_text =
     Some [''Machine translation converts text between language'',
           ''n languages. It can be rule-based, statistical, or'',
           ''stical, or neural.''] \<and>
   reassemble 10 [''Machine translation converts text between language'',
                  ''n languages. It can be rule-based, statistical, or'',
                  ''stical, or neural.''] = mt_text"
proof -
  have a: "(10::nat) < 50" by simp
  show ?thesis using chunk_reassemble [OF a, of mt_text] mt_chunks by auto
qed

section \<open>Answers\<close>

subsection \<open>C7: the answer of a ready object\<close>

text \<open>
  C7: on an object whose index and chain are set, when the chain's run on the question
  succeeds \<open>query\<close> returns the chain's answer string itself, unchanged; when the run
  raises, \<open>query\<close> prints "Error processing query: " followed by the exception's message
  and returns \<open>None\<close>. The chain is run once and the object is left as it was.
\<close>

theorem query_answer:
  assumes "vector_store self = Some vs"
      and "qa_chain self = Some chain"
  shows "(chain_run env chain question = Inr answer \<longrightarrow>
            query env self question =
              \<lparr>ret = Inr (Some answer), st = self, out = [ChainRun question]\<rparr>) \<and>
         (chain_run env' chain question = Inl e \<longrightarrow>
            query env' self question =
              \<lparr>ret = Inr None, st = self,
               out = [ChainRun question, Print (''Error processing query: '' @ exn_msg e)]\<rparr>)"
  using assms by (simp add: query_def)

theorem query_answer_witness:
  "vector_store ready_system = Some mt_store \<and> qa_chain ready_system = Some mt_chain \<and>
   chain_run colab mt_chain ''What is the main topic of the document?'' =
     Inr ''The main topic of the document is Machine Translation (MT).'' \<and>
   query colab ready_system ''What is the main topic of the document?'' =
     \<lparr>ret = Inr (Some ''The main topic of the document is Machine Translation (MT).''),
      st = ready_system, out = [ChainRun ''What is the main topic of the document?'']\<rparr> \<and>
   chain_run rate_limited mt_chain ''What is the main topic of the document?'' =
     Inl (PyException ''RateLimitError'' ''rate limit reached'') \<and>
   query rate_limited ready_system ''What is the main topic of the document?'' =
     \<lparr>ret = Inr None, st = ready_system,
      out = [ChainRun ''What is the main topic of the document?'',
             Print ''Error processing query: rate limit reached'']\<rparr>"
proof -
  have a: "vector_store ready_system = Some mt_store"
    by (simp add: ready_system_def built_system_def)
  have b: "qa_chain ready_system = Some mt_chain"
    by (simp add: ready_system_def)
  have c: "chain_run colab mt_chain ''What is the main topic of the document?'' =
      Inr ''The main topic of the document is Machine Translation (MT).''"
    by (simp add: colab_def)
  have d: "chain_run rate_limited mt_chain ''What is the main topic of the document?'' =
      Inl (PyException ''RateLimitError'' ''rate limit reached'')"
    by (simp add: rate_limited_def)
  show ?thesis
    using query_answer [OF a b, of colab "''What is the main topic of the document?''"
        "''The main topic of the document is Machine Translation (MT).''" rate_limited
        "PyException ''RateLimitError'' ''rate limit reached''"] a b c d
    by simp
qed

subsection \<open>C9: \<open>query\<close> raises nothing\<close>

text \<open>
  C9: for every question and every object, \<open>query\<close> returns; what it returns is \<open>None\<close>,
  or the answer of the object's chain on the question when that run succeeded. An
  exception raised by the chain never reaches the caller.
\<close>

theorem query_never_raises:
  "ret (query env self question) = Inr None \<or>
   (\<exists>chain answer. qa_chain self = Some chain \<and> chain_run env chain question = Inr answer \<and>
      ret (query env self question) = Inr (Some answer))"
  by (auto simp: query_def split: option.splits sum.splits)

theorem query_never_raises_witness:
  "ret (query rate_limited ready_system ''Summarize the key points.'') = Inr None \<and>
   ret (query colab new_system ''Summarize the key points.'') = Inr None \<and>
   ret (query colab ready_system ''Summarize the key points.'') =
     Inr (Some ''The main topic of the document is Machine Translation (MT).'')"
proof -
  have a: "chain_run rate_limited mt_chain ''Summarize the key points.'' =
      Inl (PyException ''RateLimitError'' ''rate limit reached'')"
    by (simp add: rate_limited_def)
  have b: "qa_chain ready_system = Some mt_chain"
    by (simp add: ready_system_def)
  have c: "qa_chain new_system = None"
    by (simp add: new_system_def)
  have d: "chain_run colab mt_chain ''Summarize the key points.'' =
      Inr ''The main topic of the document is Machine Translation (MT).''"
    by (simp add: colab_def)
  from query_never_raises [of rate_limited ready_system "''Summarize the key points.''"] a b
  have 1: "ret (query rate_limited ready_system ''Summarize the key points.'') = Inr None"
    by auto
  from query_never_raises [of colab new_system "''Summarize the key points.''"] c
  have 2: "ret (query colab new_system ''Summarize the key points.'') = Inr None"
    by auto
  have 3: "ret (query colab ready_system ''Summarize the key points.'') =
     Inr (Some ''The main topic of the document is Machine Translation (MT).'')"
    using b d by (simp add: query_def)
  from 1 2 3 show ?thesis by simp
qed

section \<open>Readiness\<close>

lemma ask_all_keeps_object: "ask_all self asks = self"
  by (induction self asks rule: ask_all.induct) (simp_all add: query_keeps_object)

lemma perform_ready:
  assumes "\<exists>vs. vector_store self = Some vs" and "\<exists>chain. qa_chain self = Some chain"
  shows "(\<exists>vs. vector_store (perform env self c) = Some vs) \<and>
         (\<exists>chain. qa_chain (perform env self c) = Some chain)"
proof (cases c)
  case CreateVectorStore
  with assms create_vector_store_cases [of env self] show ?thesis by auto
next
  case InitializeQaChain
  with assms initialize_qa_chain_cases [of env self] show ?thesis by auto
next
  case (Query question)
  with assms show ?thesis by (simp add: query_keeps_object)
qed

lemma run_ready:
  "\<exists>vs. vector_store self = Some vs \<Longrightarrow> \<exists>chain. qa_chain self = Some chain \<Longrightarrow>
   (\<exists>vs. vector_store (run self calls) = Some vs) \<and>
   (\<exists>chain. qa_chain (run self calls) = Some chain)"
proof (induction self calls rule: run.induct)
  case (1 self)
  then show ?case by simp
next
  case (2 self env c rest)
  from perform_ready [OF "2.prems", of env c] "2.IH" show ?case by simp
qed

subsection \<open>C8: a ready object stays ready\<close>

text \<open>
  C8: once the index and the chain of an object are set, every sequence of \<open>query\<close>
  calls, succeeding or failing, leaves both fields set to the very same index and chain;
  and no sequence of calls of any of the three methods makes either field \<open>None\<close> again.
\<close>

theorem ready_is_kept:
  assumes "vector_store self = Some vs"
      and "qa_chain self = Some chain"
  shows "vector_store (ask_all self asks) = Some vs \<and>
         qa_chain (ask_all self asks) = Some chain \<and>
         (\<exists>vs'. vector_store (run self calls) = Some vs') \<and>
         (\<exists>chain'. qa_chain (run self calls) = Some chain')"
  using assms run_ready [of self calls] by (simp add: ask_all_keeps_object)

theorem ready_is_kept_witness:
  "vector_store ready_system = Some mt_store \<and> qa_chain ready_system = Some mt_chain \<and>
   vector_store (ask_all ready_system
      [(colab, ''What is the main topic of the document?''),
       (rate_limited, ''Summarize the key points.'')]) = Some mt_store \<and>
   qa_chain (ask_all ready_system
      [(colab, ''What is the main topic of the document?''),
       (rate_limited, ''Summarize the key points.'')]) = Some mt_chain \<and>
   (\<exists>vs'. vector_store (run ready_system
      [(corrupt_pdf, CreateVectorStore), (no_key, InitializeQaChain),
       (rate_limited, Query ''Summarize the key points.'')]) = Some vs') \<and>
   (\<exists>chain'. qa_chain (run ready_system
      [(corrupt_pdf, CreateVectorStore), (no_key, InitializeQaChain),
       (rate_limited, Query ''Summarize the key points.'')]) = Some chain')"
proof -
  have a: "vector_store ready_system = Some mt_store"
    by (simp add: ready_system_def built_system_def)
  have b: "qa_chain ready_system = Some mt_chain"
    by (simp add: ready_system_def)
  show ?thesis
    using ready_is_kept [OF a b,
        of "[(colab, ''What is the main topic of the document?''),
             (rate_limited, ''Summarize the key points.'')]"
           "[(corrupt_pdf, CreateVectorStore), (no_key, InitializeQaChain),
             (rate_limited, Query ''Summarize the key points.'')]"] a b
    by simp
qed

section \<open>The credential\<close>

lemma empty_key_groq_llm:
  assumes "groq_api_key self = Some []"
  shows "groq_llm env self =
     (case environ_get env ''GROQ_API_KEY'' of
        None \<Rightarrow> (Inl (ValueError missing_key_msg), [EnvironGet ''GROQ_API_KEY''])
      | Some k \<Rightarrow>
          if k = [] then (Inl (ValueError missing_key_msg), [EnvironGet ''GROQ_API_KEY''])
          else (case chat_groq_init env (groq_model k) of
                  Some e \<Rightarrow> (Inl e, [EnvironGet ''GROQ_API_KEY'', ChatGroq (groq_model k)])
                | None \<Rightarrow>
                    (Inr (groq_model k),
                     [EnvironGet ''GROQ_API_KEY'', ChatGroq (groq_model k)])))"
  using assms
  by (simp add: groq_llm_def api_key_expr_def check_api_key_def Let_def split: option.splits)

subsection \<open>C10: the empty string is no key\<close>

text \<open>
  C10: on an object with a built index whose constructor was given the empty string as
  key, \<open>initialize_qa_chain\<close> treats the key as absent and falls back to the environment
  variable \<open>GROQ_API_KEY\<close>. When the variable holds a non-empty \<open>k\<close>, the method looks it
  up and constructs the model with \<open>k\<close>: it installs the chain over that model and
  returns \<open>True\<close>; or, when the model's constructor raises, prints that error and
  returns \<open>False\<close>; or, when the chain's constructor raises, lets that exception out. The
  method fails with the missing-key error (it looks the variable up, prints "Error
  initializing Groq LLM: " followed by the missing-key message, constructs nothing and
  returns \<open>False\<close>) exactly when the variable is unset or empty too. In every world the
  value returned and the calls and prints made are those of the same object with no key.
\<close>

theorem empty_key_is_absent:
  assumes "groq_api_key self = Some []"
      and "vector_store self = Some vs"
  shows
    "(environ_get env ''GROQ_API_KEY'' = Some k \<and> k \<noteq> [] \<and>
      chat_groq_init env (groq_model k) = None \<and>
      from_chain_type env (stuff_chain k vs) = None \<longrightarrow>
      initialize_qa_chain env self =
        \<lparr>ret = Inr True, st = self\<lparr>qa_chain := Some (stuff_chain k vs)\<rparr>,
         out = [EnvironGet ''GROQ_API_KEY'', ChatGroq (groq_model k),
                FromChainType (stuff_chain k vs)]\<rparr>) \<and>
     (environ_get env ''GROQ_API_KEY'' = Some k \<and> k \<noteq> [] \<and>
      chat_groq_init env (groq_model k) = Some e \<longrightarrow>
      initialize_qa_chain env self =
        \<lparr>ret = Inr False, st = self,
         out = [EnvironGet ''GROQ_API_KEY'', ChatGroq (groq_model k),
                Print (''Error initializing Groq LLM: '' @ exn_msg e)]\<rparr>) \<and>
     (environ_get env ''GROQ_API_KEY'' = Some k \<and> k \<noteq> [] \<and>
      chat_groq_init env (groq_model k) = None \<and>
      from_chain_type env (stuff_chain k vs) = Some e \<longrightarrow>
      initialize_qa_chain env self =
        \<lparr>ret = Inl e, st = self,
         out = [EnvironGet ''GROQ_API_KEY'', ChatGroq (groq_model k),
                FromChainType (stuff_chain k vs)]\<rparr>) \<and>
     ((initialize_qa_chain env self =
        \<lparr>ret = Inr False, st = self,
         out = [EnvironGet ''GROQ_API_KEY'',
                Print (''Error initializing Groq LLM: '' @ missing_key_msg)]\<rparr>) =
      (environ_get env ''GROQ_API_KEY'' = None \<or> environ_get env ''GROQ_API_KEY'' = Some [])) \<and>
     ret (initialize_qa_chain env self) =
       ret (initialize_qa_chain env (self\<lparr>groq_api_key := None\<rparr>)) \<and>
     out (initialize_qa_chain env self) =
       out (initialize_qa_chain env (self\<lparr>groq_api_key := None\<rparr>))"
proof -
  note g = empty_key_groq_llm [OF assms(1), of env]
  have same: "groq_llm env (self\<lparr>groq_api_key := None\<rparr>) = groq_llm env self"
    using assms(1) by (simp add: groq_llm_def api_key_expr_def)
  have c1: "environ_get env ''GROQ_API_KEY'' = Some k \<and> k \<noteq> [] \<and>
      chat_groq_init env (groq_model k) = None \<and>
      from_chain_type env (stuff_chain k vs) = None \<longrightarrow>
      initialize_qa_chain env self =
        \<lparr>ret = Inr True, st = self\<lparr>qa_chain := Some (stuff_chain k vs)\<rparr>,
         out = [EnvironGet ''GROQ_API_KEY'', ChatGroq (groq_model k),
                FromChainType (stuff_chain k vs)]\<rparr>"
    using assms(2) by (simp add: initialize_qa_chain_def g Let_def)
  have c2: "environ_get env ''GROQ_API_KEY'' = Some k \<and> k \<noteq> [] \<and>
      chat_groq_init env (groq_model k) = Some e \<longrightarrow>
      initialize_qa_chain env self =
        \<lparr>ret = Inr False, st = self,
         out = [EnvironGet ''GROQ_API_KEY'', ChatGroq (groq_model k),
                Print (''Error initializing Groq LLM: '' @ exn_msg e)]\<rparr>"
    using assms(2) by (simp add: initialize_qa_chain_def g Let_def)
  have c3: "environ_get env ''GROQ_API_KEY'' = Some k \<and> k \<noteq> [] \<and>
      chat_groq_init env (groq_model k) = None \<and>
      from_chain_type env (stuff_chain k vs) = Some e \<longrightarrow>
      initialize_qa_chain env self =
        \<lparr>ret = Inl e, st = self,
         out = [EnvironGet ''GROQ_API_KEY'', ChatGroq (groq_model k),
                FromChainType (stuff_chain k vs)]\<rparr>"
    using assms(2) by (simp add: initialize_qa_chain_def g Let_def)
  have c4: "(initialize_qa_chain env self =
        \<lparr>ret = Inr False, st = self,
         out = [EnvironGet ''GROQ_API_KEY'',
                Print (''Error initializing Groq LLM: '' @ missing_key_msg)]\<rparr>) =
      (environ_get env ''GROQ_API_KEY'' = None \<or> environ_get env ''GROQ_API_KEY'' = Some [])"
    using assms(2)
    by (auto simp: initialize_qa_chain_def g Let_def ValueError_def split: option.splits)
  have c5: "ret (initialize_qa_chain env self) =
       ret (initialize_qa_chain env (self\<lparr>groq_api_key := None\<rparr>))"
    by (cases "groq_llm env self")
       (simp add: initialize_qa_chain_def same Let_def split: option.splits sum.splits)
  have c6: "out (initialize_qa_chain env self) =
       out (initialize_qa_chain env (self\<lparr>groq_api_key := None\<rparr>))"
    by (cases "groq_llm env self")
       (simp add: initialize_qa_chain_def same Let_def split: option.splits sum.splits)
  from c1 c2 c3 c4 c5 c6 show ?thesis by blast
qed

theorem empty_key_is_absent_witness:
  "groq_api_key empty_key_system = Some [] \<and>
   vector_store empty_key_system = Some mt_store \<and>
   environ_get colab ''GROQ_API_KEY'' = Some ''gsk_demo'' \<and>
   initialize_qa_chain colab empty_key_system =
     \<lparr>ret = Inr True, st = empty_key_system\<lparr>qa_chain := Some mt_chain\<rparr>,
      out = [EnvironGet ''GROQ_API_KEY'', ChatGroq (groq_model ''gsk_demo''),
             FromChainType mt_chain]\<rparr> \<and>
   initialize_qa_chain groq_down empty_key_system =
     \<lparr>ret = Inr False, st = empty_key_system,
      out = [EnvironGet ''GROQ_API_KEY'', ChatGroq (groq_model ''gsk_demo''),
             Print ''Error initializing Groq LLM: invalid api key'']\<rparr> \<and>
   initialize_qa_chain chain_down empty_key_system =
     \<lparr>ret = Inl (PyException ''ValidationError'' ''bad retriever''), st = empty_key_system,
      out = [EnvironGet ''GROQ_API_KEY'', ChatGroq (groq_model ''gsk_demo''),
             FromChainType mt_chain]\<rparr> \<and>
   environ_get no_key ''GROQ_API_KEY'' = None \<and>
   initialize_qa_chain no_key empty_key_system =
     \<lparr>ret = Inr False, st = empty_key_system,
      out = [EnvironGet ''GROQ_API_KEY'',
             Print (''Error initializing Groq LLM: '' @ missing_key_msg)]\<rparr>"
proof -
  have a: "groq_api_key empty_key_system = Some []"
    by (simp add: empty_key_system_def)
  have b: "vector_store empty_key_system = Some mt_store"
    by (simp add: empty_key_system_def built_system_def)
  have ch: "stuff_chain ''gsk_demo'' mt_store = mt_chain"
    by (simp add: mt_chain_def)
  have k1: "environ_get colab ''GROQ_API_KEY'' = Some ''gsk_demo''"
    and g1: "chat_groq_init colab (groq_model ''gsk_demo'') = None"
    and f1: "from_chain_type colab (stuff_chain ''gsk_demo'' mt_store) = None"
    by (simp_all add: colab_def)
  have k2: "environ_get groq_down ''GROQ_API_KEY'' = Some ''gsk_demo''"
    and g2: "chat_groq_init groq_down (groq_model ''gsk_demo'') =
        Some (PyException ''AuthenticationError'' ''invalid api key'')"
    by (simp_all add: groq_down_def colab_def)
  have k3: "environ_get chain_down ''GROQ_API_KEY'' = Some ''gsk_demo''"
    and g3: "chat_groq_init chain_down (groq_model ''gsk_demo'') = None"
    and f3: "from_chain_type chain_down (stuff_chain ''gsk_demo'' mt_store) =
        Some (PyException ''ValidationError'' ''bad retriever'')"
    by (simp_all add: chain_down_def colab_def)
  have k4: "environ_get no_key ''GROQ_API_KEY'' = None"
    by (simp add: no_key_def)
  have ne: "''gsk_demo'' \<noteq> []" by simp
  from empty_key_is_absent [OF a b, of colab "''gsk_demo''"] k1 g1 f1 ne ch
  have 1: "initialize_qa_chain colab empty_key_system =
     \<lparr>ret = Inr True, st = empty_key_system\<lparr>qa_chain := Some mt_chain\<rparr>,
      out = [EnvironGet ''GROQ_API_KEY'', ChatGroq (groq_model ''gsk_demo''),
             FromChainType mt_chain]\<rparr>"
    by simp
  from empty_key_is_absent [OF a b, of groq_down "''gsk_demo''"
      "PyException ''AuthenticationError'' ''invalid api key''"] k2 g2 ne
  have 2: "initialize_qa_chain groq_down empty_key_system =
     \<lparr>ret = Inr False, st = empty_key_system,
      out = [EnvironGet ''GROQ_API_KEY'', ChatGroq (groq_model ''gsk_demo''),
             Print ''Error initializing Groq LLM: invalid api key'']\<rparr>"
    by simp
  from empty_key_is_absent [OF a b, of chain_down "''gsk_demo''"
      "PyException ''ValidationError'' ''bad retriever''"] k3 g3 f3 ne ch
  have 3: "initialize_qa_chain chain_down empty_key_system =
     \<lparr>ret = Inl (PyException ''ValidationError'' ''bad retriever''), st = empty_key_system,
      out = [EnvironGet ''GROQ_API_KEY'', ChatGroq (groq_model ''gsk_demo''),
             FromChainType mt_chain]\<rparr>"
    by simp
  from empty_key_is_absent [OF a b, of no_key] k4
  have 4: "initialize_qa_chain no_key empty_key_system =
     \<lparr>ret = Inr False, st = empty_key_system,
      out = [EnvironGet ''GROQ_API_KEY'',
             Print (''Error initializing Groq LLM: '' @ missing_key_msg)]\<rparr>"
    by blast
  from a b k1 1 2 3 k4 4 show ?thesis by simp
qed

end
